theory Spec2Isabelle
  imports Complex_Main "HOL-Library.List_Lexorder"
begin

section \<open>Values of the ledger\<close>

text \<open>
  A Python \<open>str\<close> is a sequence of Unicode code points. Amounts are Python floats;
  the model computes with exact rationals and adds the three non-finite values of
  IEEE-754 where the code can produce them (a division by zero). Rounding and the
  sign of zero are not modelled.
\<close>

type_synonym pystr = "nat list"

definition py :: "string \<Rightarrow> pystr" where
  \<comment> \<open>an ASCII literal as code points\<close>
  "py s = map of_char s"

definition str_entrada :: pystr where
  \<comment> \<open>the literal "entrada"\<close>
  "str_entrada = [101, 110, 116, 114, 97, 100, 97]"

definition str_saida :: pystr where
  \<comment> \<open>the literal "saida" with its i acute: s, a, U+00ED, d, a\<close>
  "str_saida = [115, 97, 237, 100, 97]"

datatype pyfloat = Fin rat | PInf | NInf | NaN

datatype py_error = TypeError

text \<open>
  A \<open>datetime64\<close> instant: whole days since 1970-01-01 and the microsecond of the day.
\<close>

record datetime =
  days :: int
  micros :: int

definition dt_ge :: "datetime \<Rightarrow> datetime \<Rightarrow> bool" where
  "dt_ge a b = (days b < days a \<or> (days a = days b \<and> micros b \<le> micros a))"

definition minus_days :: "datetime \<Rightarrow> int \<Rightarrow> datetime" where
  \<comment> \<open>\<open>t - timedelta(days=n)\<close>\<close>
  "minus_days t n = t\<lparr>days := days t - n\<rparr>"

text \<open>
  The library functions the code calls and the repository does not define:
  \<open>pd.to_datetime(column, errors="coerce")\<close> (the first argument is the whole column,
  since pandas settles the format on the column; \<open>None\<close> is NaT),
  \<open>str.strip\<close>, \<open>str.lower\<close>, and the parser behind \<open>pd.to_numeric\<close> for a text cell.
  Every theorem below holds for all of them.
\<close>

record pylib =
  to_datetime :: "pystr list \<Rightarrow> pystr \<Rightarrow> datetime option"
  str_strip :: "pystr \<Rightarrow> pystr"
  str_lower :: "pystr \<Rightarrow> pystr"
  parse_float :: "pystr \<Rightarrow> rat option"

section \<open>Rows and frames\<close>

text \<open>
  One row of a DataFrame over the table \<open>lancamentos\<close> (\<open>LANC_COLUMNS\<close>), with
  the columns the analytics add to their working copies: \<open>data_dt\<close>, \<open>mes\<close> and
  \<open>tipo_norm\<close> are \<open>None\<close> while the frame does not have the column; a \<open>data_dt\<close> of
  \<open>Some None\<close> is NaT. A month (\<open>Period\<close> of frequency M) is the number of months
  since January of year 0.
\<close>

record lancamento =
  id_lanc :: int
  data :: pystr
  empresa :: pystr
  descricao :: "pystr option"
  categoria :: "pystr option"
  tipo :: pystr
  valor :: rat
  observacoes :: "pystr option"
  created_at :: "pystr option"
  updated_at :: "pystr option"
  data_dt :: "datetime option option"
  mes :: "int option"
  tipo_norm :: "pystr option"

type_synonym frame = "lancamento list"

record kpis =
  entradas :: rat
  saidas :: rat
  saldo :: rat
  total_lancamentos :: nat

section \<open>AnalyticsEngine.calcular\_kpis\<close>

definition assign_tipo_norm :: "pylib \<Rightarrow> frame \<Rightarrow> frame" where
  \<comment> \<open>\<open>df["tipo_norm"] = df["tipo"].astype(str).str.strip().str.lower()\<close>\<close>
  "assign_tipo_norm L df =
     map (\<lambda>r. r\<lparr>tipo_norm := Some (str_lower L (str_strip L (tipo r)))\<rparr>) df"

definition loc_valor_sum :: "frame \<Rightarrow> pystr \<Rightarrow> rat" where
  \<comment> \<open>\<open>df.loc[df["tipo_norm"] == k, "valor"].sum()\<close>\<close>
  "loc_valor_sum df k = sum_list (map valor (filter (\<lambda>r. tipo_norm r = Some k) df))"

definition calcular_kpis :: "pylib \<Rightarrow> frame \<Rightarrow> kpis" where
  "calcular_kpis L df =
     (if df = [] then \<lparr>entradas = 0, saidas = 0, saldo = 0, total_lancamentos = 0\<rparr>
      else
        let df_clean = assign_tipo_norm L df;
            ent = loc_valor_sum df_clean str_entrada;
            sai = loc_valor_sum df_clean str_saida;
            sal = ent - sai
        in \<lparr>entradas = ent, saidas = sai, saldo = sal,
            total_lancamentos = length df_clean\<rparr>)"

section \<open>page\_comparativo: calc\_variation\<close>

definition calc_variation :: "rat \<Rightarrow> rat \<Rightarrow> rat" where
  "calc_variation val1 val2 =
     (if val1 = 0 then (if val2 = 0 then 0 else 100)
      else ((val2 - val1) / val1) * 100)"

record variacoes =
  var_entradas :: rat
  var_saidas :: rat
  var_saldo :: rat
  var_lanc :: rat

definition comparar :: "kpis \<Rightarrow> kpis \<Rightarrow> variacoes" where
  \<comment> \<open>the four calls of \<open>calc_variation\<close> in \<open>page_comparativo\<close>\<close>
  "comparar kpis1 kpis2 =
     \<lparr>var_entradas = calc_variation (entradas kpis1) (entradas kpis2),
      var_saidas = calc_variation (saidas kpis1) (saidas kpis2),
      var_saldo = calc_variation (saldo kpis1) (saldo kpis2),
      var_lanc = calc_variation (of_nat (total_lancamentos kpis1))
                   (of_nat (total_lancamentos kpis2))\<rparr>"

section \<open>The calendar of pandas\<close>

text \<open>
  \<open>Series.dt.to_period("M")\<close> reads the month of an instant in the proleptic Gregorian
  calendar. \<open>civil_from_days\<close> turns a day number into (year, month, day).
\<close>

definition civil_from_days :: "int \<Rightarrow> int \<times> int \<times> int" where
  "civil_from_days z =
     (let z1 = z + 719468;
          era = z1 div 146097;
          doe = z1 mod 146097;
          yoe = (doe - doe div 1460 + doe div 36524 - doe div 146096) div 365;
          doy = doe - (365 * yoe + yoe div 4 - yoe div 100);
          mp = (5 * doy + 2) div 153;
          d = doy - (153 * mp + 2) div 5 + 1;
          m = (if mp < 10 then mp + 3 else mp - 9);
          y = yoe + era * 400
      in (if m \<le> 2 then y + 1 else y, m, d))"

definition days_from_civil :: "int \<Rightarrow> int \<Rightarrow> int \<Rightarrow> int" where
  "days_from_civil y m d =
     (let y1 = (if m \<le> 2 then y - 1 else y);
          era = y1 div 400;
          yoe = y1 - era * 400;
          doy = (153 * (if m > 2 then m - 3 else m + 9) + 2) div 5 + d - 1;
          doe = yoe * 365 + yoe div 4 - yoe div 100 + doy
      in era * 146097 + doe - 719468)"

definition to_period_M :: "datetime \<Rightarrow> int" where
  "to_period_M t = (case civil_from_days (days t) of (y, m, d) \<Rightarrow> y * 12 + (m - 1))"

section \<open>An instance of the library\<close>

text \<open>
  The evaluations below run the code on concrete rows, so they need one concrete
  library. \<open>lib0\<close> agrees with Python on the inputs used there: dates in the ISO form
  \<open>YYYY-MM-DD\<close> that \<open>insert_lancamento\<close> stores (anything else is NaT), whitespace as
  \<open>str.isspace\<close> has it, lower case on the code points below U+0100, and unsigned
  decimal integers as numbers (any other text is not a number).
\<close>

definition py_isspace :: "nat \<Rightarrow> bool" where
  "py_isspace c =
     (c \<in> set [9, 10, 11, 12, 13, 28, 29, 30, 31, 32, 133, 160, 5760, 8192, 8193, 8194,
                8195, 8196, 8197, 8198, 8199, 8200, 8201, 8202, 8232, 8233, 8239, 8287,
                12288])"

definition lib_strip :: "pystr \<Rightarrow> pystr" where
  "lib_strip s = rev (dropWhile py_isspace (rev (dropWhile py_isspace s)))"

definition lower_cp :: "nat \<Rightarrow> nat" where
  "lower_cp c =
     (if (65 \<le> c \<and> c \<le> 90) \<or> (192 \<le> c \<and> c \<le> 222 \<and> c \<noteq> 215) then c + 32 else c)"

definition lib_lower :: "pystr \<Rightarrow> pystr" where
  "lib_lower s = map lower_cp s"

fun digits_value :: "nat list \<Rightarrow> nat \<Rightarrow> nat option" where
  "digits_value [] acc = Some acc"
| "digits_value (c # cs) acc =
     (if 48 \<le> c \<and> c \<le> 57 then digits_value cs (acc * 10 + (c - 48)) else None)"

definition parse_nat :: "pystr \<Rightarrow> nat option" where
  "parse_nat s = (if s = [] then None else digits_value s 0)"

definition iso_date :: "pystr \<Rightarrow> datetime option" where
  "iso_date s =
     (if length s = 10 \<and> s ! 4 = 45 \<and> s ! 7 = 45 then
        (case (parse_nat (take 4 s), parse_nat (take 2 (drop 5 s)), parse_nat (drop 8 s)) of
           (Some y, Some m, Some d) \<Rightarrow>
             (let z = days_from_civil (int y) (int m) (int d)
              in if civil_from_days z = (int y, int m, int d)
                 then Some \<lparr>days = z, micros = 0\<rparr> else None)
         | _ \<Rightarrow> None)
      else None)"

definition lib0 :: pylib where
  "lib0 = \<lparr>to_datetime = (\<lambda>col s. iso_date s), str_strip = lib_strip,
           str_lower = lib_lower, parse_float = (\<lambda>s. map_option of_nat (parse_nat s))\<rparr>"

definition lanc :: "int \<Rightarrow> pystr \<Rightarrow> pystr \<Rightarrow> rat \<Rightarrow> lancamento" where
  \<comment> \<open>a row as read from the table: company "Acme", no derived column yet\<close>
  "lanc i d t v =
     \<lparr>id_lanc = i, data = d, empresa = py ''Acme'', descricao = None, categoria = None,
      tipo = t, valor = v, observacoes = None, created_at = None, updated_at = None,
      data_dt = None, mes = None, tipo_norm = None\<rparr>"

definition str_Entrada :: pystr where
  \<comment> \<open>\<open>TIPOS[0]\<close>, "Entrada"\<close>
  "str_Entrada = [69, 110, 116, 114, 97, 100, 97]"

definition str_Saida :: pystr where
  \<comment> \<open>\<open>TIPOS[1]\<close>, "Saida" with its i acute\<close>
  "str_Saida = [83, 97, 237, 100, 97]"

definition df4 :: frame where
  \<comment> \<open>two months of 2024, one inflow and one outflow each\<close>
  "df4 = [lanc 1 (py ''2024-01-05'') str_Entrada 1000,
          lanc 2 (py ''2024-01-20'') str_Saida 400,
          lanc 3 (py ''2024-02-10'') (py '' ENTRADA '') 1100,
          lanc 4 (py ''2024-02-15'') str_Saida 500]"

section \<open>Float arithmetic that can leave the finite values\<close>

definition fl_div :: "rat \<Rightarrow> rat \<Rightarrow> pyfloat" where
  \<comment> \<open>numpy's division of two finite floats: \<open>x/0\<close> is an infinity, \<open>0/0\<close> is NaN\<close>
  "fl_div a b =
     (if b \<noteq> 0 then Fin (a / b)
      else if 0 < a then PInf else if a < 0 then NInf else NaN)"

fun fl_add :: "pyfloat \<Rightarrow> pyfloat \<Rightarrow> pyfloat" where
  "fl_add (Fin a) (Fin b) = Fin (a + b)"
| "fl_add NaN y = NaN"
| "fl_add x NaN = NaN"
| "fl_add PInf NInf = NaN"
| "fl_add NInf PInf = NaN"
| "fl_add PInf y = PInf"
| "fl_add NInf y = NInf"
| "fl_add (Fin a) y = y"

definition fl_scale :: "pyfloat \<Rightarrow> rat \<Rightarrow> pyfloat" where
  \<comment> \<open>the product with a finite float\<close>
  "fl_scale x c =
     (case x of
        Fin a \<Rightarrow> Fin (a * c)
      | PInf \<Rightarrow> (if 0 < c then PInf else if c < 0 then NInf else NaN)
      | NInf \<Rightarrow> (if 0 < c then NInf else if c < 0 then PInf else NaN)
      | NaN \<Rightarrow> NaN)"

definition fl_div_count :: "pyfloat \<Rightarrow> nat \<Rightarrow> pyfloat" where
  \<comment> \<open>a sum divided by a positive count\<close>
  "fl_div_count x n = (case x of Fin a \<Rightarrow> Fin (a / of_nat n) | y \<Rightarrow> y)"

section \<open>pandas: pct\_change, mean, groupby and unstack\<close>

definition pct_change :: "rat list \<Rightarrow> pyfloat list" where
  \<comment> \<open>\<open>Series.pct_change()\<close>: \<open>v / v.shift(1) - 1\<close>, NaN in the first place\<close>
  "pct_change vs =
     (case vs of
        [] \<Rightarrow> []
      | v # rest \<Rightarrow> NaN # map2 (\<lambda>prev cur. fl_add (fl_div cur prev) (Fin (- 1))) vs rest)"

definition series_mean :: "pyfloat list \<Rightarrow> pyfloat" where
  \<comment> \<open>\<open>Series.mean()\<close>, \<open>skipna=True\<close>: NaN is left out, an infinity is not\<close>
  "series_mean xs =
     (let vals = filter (\<lambda>x. x \<noteq> NaN) xs; count = length vals
      in if 0 < count then fl_div_count (foldl fl_add (Fin 0) vals) count else NaN)"

definition series_trend :: "rat list \<Rightarrow> pyfloat" where
  \<comment> \<open>\<open>s.pct_change().mean() * 100\<close>\<close>
  "series_trend vs = fl_scale (series_mean (pct_change vs)) 100"

text \<open>
  The result of \<open>df.groupby(["mes", "tipo_norm"])["valor"].sum().unstack(fill_value=0)\<close>:
  the months that occur, ascending, and for every kind that occurs its column, one
  sum per month of the index (0 where the month has no row of the kind). A row with
  a missing key is in no group.
\<close>

record monthly_table =
  index :: "int list"
  columns :: "(pystr \<times> rat list) list"

definition group_keys :: "frame \<Rightarrow> (int \<times> pystr \<times> rat) list" where
  "group_keys df =
     List.map_filter
       (\<lambda>r. case (mes r, tipo_norm r) of
               (Some m, Some k) \<Rightarrow> Some (m, k, valor r)
             | _ \<Rightarrow> None) df"

definition group_sum :: "(int \<times> pystr \<times> rat) list \<Rightarrow> int \<Rightarrow> pystr \<Rightarrow> rat" where
  "group_sum ks m k = sum_list (map (\<lambda>(m', k', v). v) (filter (\<lambda>(m', k', v). m' = m \<and> k' = k) ks))"

definition groupby_unstack :: "frame \<Rightarrow> monthly_table" where
  "groupby_unstack df =
     (let ks = group_keys df;
          idx = sort (remdups (map fst ks));
          cols = sort (remdups (map (\<lambda>(m, k, v). k) ks))
      in \<lparr>index = idx, columns = map (\<lambda>k. (k, map (\<lambda>m. group_sum ks m k) idx)) cols\<rparr>)"

text \<open>
  \<open>monthly.get(k, 0)\<close> is a column or the integer 0, and the subtraction of
  \<open>calcular_trends\<close> works on either; \<open>len\<close> of the integer raises TypeError.
\<close>

datatype pd_value = Scalar rat | Series "rat list"

definition table_get :: "monthly_table \<Rightarrow> pystr \<Rightarrow> rat \<Rightarrow> pd_value" where
  "table_get t k dflt = (case map_of (columns t) k of Some vs \<Rightarrow> Series vs | None \<Rightarrow> Scalar dflt)"

fun pd_sub :: "pd_value \<Rightarrow> pd_value \<Rightarrow> pd_value" where
  "pd_sub (Series a) (Series b) = Series (map2 (\<lambda>x y. x - y) a b)"
| "pd_sub (Series a) (Scalar c) = Series (map (\<lambda>x. x - c) a)"
| "pd_sub (Scalar c) (Series b) = Series (map (\<lambda>y. c - y) b)"
| "pd_sub (Scalar c) (Scalar d) = Scalar (c - d)"

section \<open>AnalyticsEngine.calcular\_trends\<close>

record trends =
  trend_entradas :: pyfloat
  trend_saidas :: pyfloat
  trend_saldo :: pyfloat

definition assign_data_dt :: "pylib \<Rightarrow> frame \<Rightarrow> frame" where
  \<comment> \<open>\<open>df["data_dt"] = pd.to_datetime(df["data"], errors="coerce")\<close>\<close>
  "assign_data_dt L df = map (\<lambda>r. r\<lparr>data_dt := Some (to_datetime L (map data df) (data r))\<rparr>) df"

definition dropna_data_dt :: "frame \<Rightarrow> frame" where
  \<comment> \<open>\<open>df.dropna(subset=["data_dt"])\<close>\<close>
  "dropna_data_dt df = filter (\<lambda>r. data_dt r \<noteq> Some None) df"

definition data_dt_ge :: "datetime \<Rightarrow> lancamento \<Rightarrow> bool" where
  \<comment> \<open>one row of the mask \<open>df["data_dt"] >= data_corte\<close>; NaT compares false\<close>
  "data_dt_ge c r = (case data_dt r of Some (Some t) \<Rightarrow> dt_ge t c | _ \<Rightarrow> False)"

definition assign_mes :: "frame \<Rightarrow> frame" where
  \<comment> \<open>\<open>df["mes"] = df["data_dt"].dt.to_period("M")\<close>\<close>
  "assign_mes df =
     map (\<lambda>r. r\<lparr>mes := (case data_dt r of Some (Some t) \<Rightarrow> Some (to_period_M t) | _ \<Rightarrow> None)\<rparr>) df"

definition trend_window :: "pylib \<Rightarrow> datetime \<Rightarrow> frame \<Rightarrow> int \<Rightarrow> frame" where
  \<comment> \<open>lines 506 to 510: the working copy restricted to the dated rows from the cut on\<close>
  "trend_window L now df periodo =
     (let df_trend = assign_data_dt L df;
          df_trend = dropna_data_dt df_trend;
          data_corte = minus_days now (periodo * 30)
      in filter (data_dt_ge data_corte) df_trend)"

definition trend_monthly :: "pylib \<Rightarrow> frame \<Rightarrow> monthly_table" where
  \<comment> \<open>lines 513 to 515\<close>
  "trend_monthly L df_trend = groupby_unstack (assign_tipo_norm L (assign_mes df_trend))"

definition zero_trends :: trends where
  "zero_trends = \<lparr>trend_entradas = Fin 0, trend_saidas = Fin 0, trend_saldo = Fin 0\<rparr>"

definition column_trend :: "monthly_table \<Rightarrow> pystr \<Rightarrow> pyfloat" where
  \<comment> \<open>\<open>monthly[k].pct_change().mean() * 100 if k in monthly.columns and len(monthly) >= 2 else 0\<close>\<close>
  "column_trend t k =
     (case map_of (columns t) k of
        Some vs \<Rightarrow> (if 2 \<le> length (index t) then series_trend vs else Fin 0)
      | None \<Rightarrow> Fin 0)"

definition trends_of_monthly :: "monthly_table \<Rightarrow> py_error + trends" where
  \<comment> \<open>lines 516 to 533\<close>
  "trends_of_monthly monthly =
     (let t_ent = column_trend monthly str_entrada;
          t_sai = column_trend monthly str_saida;
          saldo_mensal = pd_sub (table_get monthly str_entrada 0) (table_get monthly str_saida 0)
      in (case saldo_mensal of
            Scalar c \<Rightarrow> Inl TypeError
          | Series vs \<Rightarrow>
              Inr \<lparr>trend_entradas = t_ent, trend_saidas = t_sai,
                   trend_saldo = (if 2 \<le> length vs then series_trend vs else Fin 0)\<rparr>))"

definition calcular_trends :: "pylib \<Rightarrow> datetime \<Rightarrow> frame \<Rightarrow> int \<Rightarrow> py_error + trends" where
  "calcular_trends L now df periodo =
     (if df = [] then Inr zero_trends
      else
        let df_trend = trend_window L now df periodo in
        if df_trend = [] then Inr zero_trends
        else trends_of_monthly (trend_monthly L df_trend))"

definition now0 :: datetime where
  \<comment> \<open>2024-03-15 12:00\<close>
  "now0 = \<lparr>days = 19797, micros = 43200000000\<rparr>"

section \<open>LancamentoManager.read\_lancamentos\<close>

text \<open>
  A cell of the column \<open>valor\<close> as \<open>pd.read_sql_query\<close> delivers it: SQLite keeps a
  text that is not a number as text even in a REAL column. The rows the query
  returns are the input of the model; the query itself runs in SQLite.
\<close>

datatype sqlval = SqlNull | SqlNum rat | SqlText pystr

record db_row =
  db_id :: int
  db_data :: pystr
  db_empresa :: pystr
  db_descricao :: "pystr option"
  db_categoria :: "pystr option"
  db_tipo :: pystr
  db_valor :: sqlval
  db_observacoes :: "pystr option"
  db_created_at :: "pystr option"
  db_updated_at :: "pystr option"

definition to_numeric :: "pylib \<Rightarrow> sqlval \<Rightarrow> rat option" where
  \<comment> \<open>\<open>pd.to_numeric(v, errors="coerce")\<close>; \<open>None\<close> is NaN\<close>
  "to_numeric L v =
     (case v of SqlNull \<Rightarrow> None | SqlNum x \<Rightarrow> Some x | SqlText s \<Rightarrow> parse_float L s)"

definition fillna :: "rat \<Rightarrow> rat option \<Rightarrow> rat" where
  "fillna d v = (case v of None \<Rightarrow> d | Some x \<Rightarrow> x)"

definition as_lancamento :: "pylib \<Rightarrow> db_row \<Rightarrow> lancamento" where
  \<comment> \<open>line 440, on one row: \<open>pd.to_numeric(df["valor"], errors="coerce").fillna(0.0)\<close>\<close>
  "as_lancamento L r =
     \<lparr>id_lanc = db_id r, data = db_data r, empresa = db_empresa r,
      descricao = db_descricao r, categoria = db_categoria r, tipo = db_tipo r,
      valor = fillna 0 (to_numeric L (db_valor r)), observacoes = db_observacoes r,
      created_at = db_created_at r, updated_at = db_updated_at r,
      data_dt = None, mes = None, tipo_norm = None\<rparr>"

definition read_lancamentos :: "pylib \<Rightarrow> db_row list \<Rightarrow> frame" where
  \<comment> \<open>lines 436 to 441, from the rows of the query on\<close>
  "read_lancamentos L rows = (if rows = [] then [] else map (as_lancamento L) rows)"

definition db_lanc :: "int \<Rightarrow> pystr \<Rightarrow> pystr \<Rightarrow> sqlval \<Rightarrow> db_row" where
  \<comment> \<open>a stored row of company "Acme"\<close>
  "db_lanc i d t v =
     \<lparr>db_id = i, db_data = d, db_empresa = py ''Acme'', db_descricao = None,
      db_categoria = None, db_tipo = t, db_valor = v, db_observacoes = None,
      db_created_at = None, db_updated_at = None\<rparr>"

section \<open>page\_previsoes\<close>

text \<open>
  \<open>np.polyfit(x, y, 1)\<close> returns the slope and the intercept of the least-squares
  line; the model computes them by the normal equations. The page calls it with
  \<open>x = np.arange(n)\<close> and \<open>n \<ge> 2\<close> only.
\<close>

definition polyfit1 :: "rat list \<Rightarrow> rat list \<Rightarrow> rat \<times> rat" where
  "polyfit1 x y =
     (let n = of_nat (length x);
          sx = sum_list x;
          sy = sum_list y;
          sxx = sum_list (map (\<lambda>a. a * a) x);
          sxy = sum_list (map2 (\<lambda>a b. a * b) x y);
          slope = (n * sxy - sx * sy) / (n * sxx - sx * sx);
          intercept = (sy - slope * sx) / n
      in (slope, intercept))"

definition arange :: "nat \<Rightarrow> rat list" where
  "arange n = map of_nat [0..<n]"

definition fit :: "rat list \<Rightarrow> rat list \<Rightarrow> rat \<times> rat" where
  \<comment> \<open>\<open>_fit\<close>, with the \<open>x\<close> it closes over; the values are finite, so
      \<open>np.any(np.isfinite(y_arr))\<close> holds of a non-empty array and \<open>nanmean\<close> is the mean\<close>
  "fit x y_arr =
     (if 2 \<le> length y_arr then polyfit1 x y_arr
      else (0, if y_arr \<noteq> [] then sum_list y_arr / of_nat (length y_arr) else 0))"

definition kind_line :: "monthly_table \<Rightarrow> pystr \<Rightarrow> rat \<times> rat" where
  \<comment> \<open>\<open>_fit(monthly_hist[k]) if k in monthly_hist.columns else (0.0, 0.0)\<close>\<close>
  "kind_line t k =
     (case map_of (columns t) k of
        Some y \<Rightarrow> fit (arange (length (index t))) y
      | None \<Rightarrow> (0, 0))"

record projecao =
  mes_proj :: int
  entradas_proj :: rat
  saidas_proj :: rat
  saldo_proj :: rat

datatype aviso = Sem_dados | Sem_dados_mensais

definition assign_tipo_lower :: "pylib \<Rightarrow> frame \<Rightarrow> frame" where
  \<comment> \<open>\<open>df["tipo_norm"] = df["tipo"].str.lower()\<close>\<close>
  "assign_tipo_lower L df = map (\<lambda>r. r\<lparr>tipo_norm := Some (str_lower L (tipo r))\<rparr>) df"

definition hist_monthly :: "pylib \<Rightarrow> frame \<Rightarrow> monthly_table" where
  \<comment> \<open>lines 1094 to 1099\<close>
  "hist_monthly L df_historico =
     (let df_hist = assign_data_dt L df_historico;
          df_hist = dropna_data_dt df_hist
      in groupby_unstack (assign_tipo_lower L (assign_mes df_hist)))"

definition table_empty :: "monthly_table \<Rightarrow> bool" where
  \<comment> \<open>\<open>DataFrame.empty\<close>: an axis of length 0\<close>
  "table_empty t = (index t = [] \<or> columns t = [])"

definition projetar :: "monthly_table \<Rightarrow> int \<Rightarrow> projecao list" where
  \<comment> \<open>lines 1106 to 1134\<close>
  "projetar monthly_hist meses_projecao =
     (let (slope_ent, intercept_ent) = kind_line monthly_hist str_entrada;
          (slope_sai, intercept_sai) = kind_line monthly_hist str_saida;
          last_month = Max (set (index monthly_hist));
          n = int (length (index monthly_hist))
      in map (\<lambda>i.
            let ent_proj = max 0 (intercept_ent + slope_ent * of_int (n + i - 1));
                sai_proj = max 0 (intercept_sai + slope_sai * of_int (n + i - 1))
            in \<lparr>mes_proj = last_month + i, entradas_proj = ent_proj,
                saidas_proj = sai_proj, saldo_proj = ent_proj - sai_proj\<rparr>)
          [1..meses_projecao])"

definition page_previsoes :: "pylib \<Rightarrow> frame \<Rightarrow> int \<Rightarrow> aviso + projecao list" where
  \<comment> \<open>lines 1091 to 1134: a warning and an early return, or the list \<open>projecoes\<close>\<close>
  "page_previsoes L df_historico meses_projecao =
     (if df_historico = [] then Inl Sem_dados
      else
        let monthly_hist = hist_monthly L df_historico in
        if table_empty monthly_hist then Inl Sem_dados_mensais
        else Inr (projetar monthly_hist meses_projecao))"


definition df_hist :: frame where
  \<comment> \<open>inflows 1000 and 1200, outflows 400 and 500, in January and February 2024\<close>
  "df_hist = [lanc 1 (py ''2024-01-05'') str_Entrada 1000,
              lanc 2 (py ''2024-01-20'') str_Saida 400,
              lanc 3 (py ''2024-02-10'') str_Entrada 1200,
              lanc 4 (py ''2024-02-15'') str_Saida 500]"

definition df_sem_data :: frame where
  \<comment> \<open>one row whose date does not parse\<close>
  "df_sem_data = [lanc 1 (py ''sem data'') str_Entrada 10]"

definition df_inf :: frame where
  \<comment> \<open>an outflow in January 2024, an inflow in February: the inflow series is 0, 100\<close>
  "df_inf = [lanc 1 (py ''2024-01-10'') str_Saida 50,
             lanc 2 (py ''2024-02-10'') str_Entrada 100]"

definition df_zeros :: frame where
  \<comment> \<open>two inflows of amount 0, the least \<open>st.number_input\<close> admits\<close>
  "df_zeros = [lanc 1 (py ''2024-01-10'') str_Entrada 0,
               lanc 2 (py ''2024-02-10'') str_Entrada 0]"

definition df_outro :: frame where
  \<comment> \<open>one row of a kind that is neither of \<open>TIPOS\<close>\<close>
  "df_outro = [lanc 1 (py ''2024-01-10'') (py ''Outro'') 50]"

section \<open>The trend as the claim words it\<close>










section \<open>Frames as objects\<close>

text \<open>
  The analytics receive a reference to the caller's DataFrame. \<open>df.copy()\<close>, \<open>dropna\<close>
  and a boolean mask make new objects; a column assignment changes the object it is
  applied to. A store maps references to frames, and \<open>next_ref\<close> is the first
  reference not yet in use. The functions below are \<open>calcular_kpis\<close> and
  \<open>calcular_trends\<close> statement by statement on such a store; they return \<open>None\<close> for
  a reference that is no object, which Python cannot pass.
\<close>

record store =
  objs :: "nat \<Rightarrow> frame option"
  next_ref :: nat

definition new_object :: "store \<Rightarrow> frame \<Rightarrow> nat \<times> store" where
  "new_object s f =
     (next_ref s, s\<lparr>objs := (objs s)(next_ref s \<mapsto> f), next_ref := Suc (next_ref s)\<rparr>)"

definition set_object :: "store \<Rightarrow> nat \<Rightarrow> frame \<Rightarrow> store" where
  "set_object s a f = s\<lparr>objs := (objs s)(a \<mapsto> f)\<rparr>"

definition get_object :: "store \<Rightarrow> nat \<Rightarrow> frame" where
  "get_object s a = (case objs s a of Some f \<Rightarrow> f | None \<Rightarrow> [])"

definition calcular_kpis_st :: "pylib \<Rightarrow> store \<Rightarrow> nat \<Rightarrow> (kpis \<times> store) option" where
  "calcular_kpis_st L s df =
     (case objs s df of
        None \<Rightarrow> None
      | Some f \<Rightarrow>
          if f = [] then
            Some (\<lparr>entradas = 0, saidas = 0, saldo = 0, total_lancamentos = 0\<rparr>, s)
          else
            let (df_clean, s1) = new_object s f;
                s2 = set_object s1 df_clean (assign_tipo_norm L (get_object s1 df_clean));
                ent = loc_valor_sum (get_object s2 df_clean) str_entrada;
                sai = loc_valor_sum (get_object s2 df_clean) str_saida;
                sal = ent - sai
            in Some (\<lparr>entradas = ent, saidas = sai, saldo = sal,
                      total_lancamentos = length (get_object s2 df_clean)\<rparr>, s2))"

definition calcular_trends_st ::
  "pylib \<Rightarrow> datetime \<Rightarrow> store \<Rightarrow> nat \<Rightarrow> int \<Rightarrow> ((py_error + trends) \<times> store) option" where
  "calcular_trends_st L now s df periodo =
     (case objs s df of
        None \<Rightarrow> None
      | Some f \<Rightarrow>
          if f = [] then Some (Inr zero_trends, s)
          else
            let (c, s1) = new_object s f;
                s2 = set_object s1 c (assign_data_dt L (get_object s1 c));
                (d, s3) = new_object s2 (dropna_data_dt (get_object s2 c));
                data_corte = minus_days now (periodo * 30);
                (e, s4) = new_object s3 (filter (data_dt_ge data_corte) (get_object s3 d))
            in if get_object s4 e = [] then Some (Inr zero_trends, s4)
               else
                 let s5 = set_object s4 e (assign_mes (get_object s4 e));
                     s6 = set_object s5 e (assign_tipo_norm L (get_object s5 e));
                     monthly = groupby_unstack (get_object s6 e)
                 in Some (trends_of_monthly monthly, s6))"

definition store0 :: store where
  \<comment> \<open>one object, the frame \<open>df4\<close>, under the reference 0\<close>
  "store0 = \<lparr>objs = Map.empty(0 \<mapsto> df4), next_ref = 1\<rparr>"







section \<open>Evaluating the library instance\<close>

lemma norm_Entrada: "lib_lower (lib_strip str_Entrada) = str_entrada"
  by (simp add: lib_lower_def lib_strip_def str_Entrada_def str_entrada_def py_isspace_def
      lower_cp_def)

lemma norm_Saida: "lib_lower (lib_strip str_Saida) = str_saida"
  by (simp add: lib_lower_def lib_strip_def str_Saida_def str_saida_def py_isspace_def
      lower_cp_def)

lemma norm_ENTRADA_spaces: "lib_lower (lib_strip (py '' ENTRADA '')) = str_entrada"
  by (simp add: lib_lower_def lib_strip_def py_def str_entrada_def py_isspace_def lower_cp_def)

lemma norm_Outro: "lib_lower (lib_strip (py ''Outro'')) = py ''outro''"
  by (simp add: lib_lower_def lib_strip_def py_def py_isspace_def lower_cp_def)

lemma outro_neq: "py ''outro'' \<noteq> str_entrada" "py ''outro'' \<noteq> str_saida"
  by (simp_all add: py_def str_entrada_def str_saida_def)

lemma entrada_neq_saida: "str_entrada \<noteq> str_saida" "str_saida \<noteq> str_entrada"
  by (simp_all add: str_entrada_def str_saida_def)

lemma lib0_simps:
  "str_strip lib0 = lib_strip" "str_lower lib0 = lib_lower"
  "to_datetime lib0 = (\<lambda>col s. iso_date s)"
  "parse_float lib0 = (\<lambda>s. map_option of_nat (parse_nat s))"
  by (simp_all add: lib0_def)

lemmas norm_simps = lib0_simps norm_Entrada norm_Saida norm_ENTRADA_spaces norm_Outro
  outro_neq entrada_neq_saida

section \<open>KPIs\<close>

lemma loc_valor_sum_assign:
  "loc_valor_sum (assign_tipo_norm L df) k =
   sum_list (map valor (filter (\<lambda>r. str_lower L (str_strip L (tipo r)) = k) df))"
  by (induction df) (simp_all add: loc_valor_sum_def assign_tipo_norm_def)

lemma entradas_calcular_kpis:
  "entradas (calcular_kpis L df) =
   sum_list (map valor (filter (\<lambda>r. str_lower L (str_strip L (tipo r)) = str_entrada) df))"
  by (simp add: calcular_kpis_def Let_def loc_valor_sum_assign)

lemma saidas_calcular_kpis:
  "saidas (calcular_kpis L df) =
   sum_list (map valor (filter (\<lambda>r. str_lower L (str_strip L (tipo r)) = str_saida) df))"
  by (simp add: calcular_kpis_def Let_def loc_valor_sum_assign)

lemma saldo_calcular_kpis:
  "saldo (calcular_kpis L df) = entradas (calcular_kpis L df) - saidas (calcular_kpis L df)"
  by (simp add: calcular_kpis_def Let_def)

lemma total_calcular_kpis: "total_lancamentos (calcular_kpis L df) = length df"
  by (simp add: calcular_kpis_def Let_def assign_tipo_norm_def)

lemma kpis_df4:
  "entradas (calcular_kpis lib0 df4) = 2100" "saidas (calcular_kpis lib0 df4) = 900"
  by (simp_all add: entradas_calcular_kpis saidas_calcular_kpis df4_def lanc_def norm_simps)

text \<open>
  C8. For every frame the snapshot of \<open>calcular_kpis\<close> has
  \<open>saldo = entradas - saidas\<close>, where \<open>entradas\<close> is the sum of \<open>valor\<close> over the rows whose
  stripped, lower-cased \<open>tipo\<close> is "entrada" and \<open>saidas\<close> that over the rows whose
  normalised \<open>tipo\<close> is "saida" (with i acute). The empty frame gives 0 = 0 - 0.
\<close>

theorem kpis_saldo_exact:
  "saldo (calcular_kpis L df) = entradas (calcular_kpis L df) - saidas (calcular_kpis L df)
   \<and> entradas (calcular_kpis L df) =
       sum_list (map valor (filter (\<lambda>r. str_lower L (str_strip L (tipo r)) = str_entrada) df))
   \<and> saidas (calcular_kpis L df) =
       sum_list (map valor (filter (\<lambda>r. str_lower L (str_strip L (tipo r)) = str_saida) df))"
  using saldo_calcular_kpis entradas_calcular_kpis saidas_calcular_kpis by blast

theorem kpis_saldo_exact_witness:
  "saldo (calcular_kpis lib0 df4) = 1200
   \<and> entradas (calcular_kpis lib0 df4) = 2100 \<and> saidas (calcular_kpis lib0 df4) = 900"
proof -
  have "saldo (calcular_kpis lib0 df4)
        = entradas (calcular_kpis lib0 df4) - saidas (calcular_kpis lib0 df4)"
    using kpis_saldo_exact [of lib0 df4] by blast
  then show ?thesis by (simp add: kpis_df4)
qed

text \<open>
  C10. Adding, anywhere in a frame, one row whose stripped, lower-cased \<open>tipo\<close> is
  neither "entrada" nor "saida" (with i acute) leaves \<open>entradas\<close>, \<open>saidas\<close> and
  \<open>saldo\<close> of \<open>calcular_kpis\<close> as they were and raises \<open>total_lancamentos\<close> by one.
\<close>

theorem kpis_unrecognized_kind:
  assumes "str_lower L (str_strip L (tipo e)) \<noteq> str_entrada"
      and "str_lower L (str_strip L (tipo e)) \<noteq> str_saida"
  shows "entradas (calcular_kpis L (xs @ e # ys)) = entradas (calcular_kpis L (xs @ ys))
       \<and> saidas (calcular_kpis L (xs @ e # ys)) = saidas (calcular_kpis L (xs @ ys))
       \<and> saldo (calcular_kpis L (xs @ e # ys)) = saldo (calcular_kpis L (xs @ ys))
       \<and> total_lancamentos (calcular_kpis L (xs @ e # ys)) =
           total_lancamentos (calcular_kpis L (xs @ ys)) + 1"
  using assms
  by (simp add: saldo_calcular_kpis entradas_calcular_kpis saidas_calcular_kpis
      total_calcular_kpis)

theorem kpis_unrecognized_kind_witness:
  "str_lower lib0 (str_strip lib0 (tipo (lanc 5 (py ''2024-02-20'') (py ''Outro'') 70)))
     \<noteq> str_entrada
   \<and> str_lower lib0 (str_strip lib0 (tipo (lanc 5 (py ''2024-02-20'') (py ''Outro'') 70)))
     \<noteq> str_saida
   \<and> entradas (calcular_kpis lib0 (df4 @ lanc 5 (py ''2024-02-20'') (py ''Outro'') 70 # []))
       = 2100
   \<and> saidas (calcular_kpis lib0 (df4 @ lanc 5 (py ''2024-02-20'') (py ''Outro'') 70 # []))
       = 900
   \<and> saldo (calcular_kpis lib0 (df4 @ lanc 5 (py ''2024-02-20'') (py ''Outro'') 70 # []))
       = saldo (calcular_kpis lib0 df4)
   \<and> total_lancamentos
         (calcular_kpis lib0 (df4 @ lanc 5 (py ''2024-02-20'') (py ''Outro'') 70 # [])) = 5"
proof -
  let ?e = "lanc 5 (py ''2024-02-20'') (py ''Outro'') 70"
  have h1: "str_lower lib0 (str_strip lib0 (tipo ?e)) \<noteq> str_entrada"
    by (simp add: lanc_def norm_simps)
  have h2: "str_lower lib0 (str_strip lib0 (tipo ?e)) \<noteq> str_saida"
    by (simp add: lanc_def norm_simps)
  have len: "total_lancamentos (calcular_kpis lib0 df4) = 4"
    by (simp add: total_calcular_kpis df4_def)
  show ?thesis
    using kpis_unrecognized_kind [OF h1 h2, of df4 "[]"] h1 h2 len by (simp add: kpis_df4)
qed

section \<open>Comparison of two snapshots\<close>

text \<open>
  C2. For two KPI snapshots A and B, \<open>page_comparativo\<close> computes every one of its
  four variations (entradas, saidas, saldo, total\_lancamentos) by the same rule:
  \<open>(B - A) / A * 100\<close>, except that a zero A gives 0 when B is zero too and 100
  otherwise. So a non-zero value against itself gives 0, zero against zero gives 0,
  and zero against a positive value gives 100.
\<close>

theorem comparar_variation:
  "var_entradas (comparar A B) =
     (if entradas A = 0 then (if entradas B = 0 then 0 else 100)
      else (entradas B - entradas A) / entradas A * 100)
   \<and> var_saidas (comparar A B) =
     (if saidas A = 0 then (if saidas B = 0 then 0 else 100)
      else (saidas B - saidas A) / saidas A * 100)
   \<and> var_saldo (comparar A B) =
     (if saldo A = 0 then (if saldo B = 0 then 0 else 100)
      else (saldo B - saldo A) / saldo A * 100)
   \<and> var_lanc (comparar A B) =
     (if total_lancamentos A = 0 then (if total_lancamentos B = 0 then 0 else 100)
      else (of_nat (total_lancamentos B) - of_nat (total_lancamentos A))
             / of_nat (total_lancamentos A) * 100)
   \<and> (x \<noteq> 0 \<longrightarrow> calc_variation x x = 0)
   \<and> calc_variation 0 0 = 0
   \<and> (0 < y \<longrightarrow> calc_variation 0 y = 100)"
  by (simp add: comparar_def calc_variation_def)

theorem comparar_variation_witness:
  "var_entradas (comparar \<lparr>entradas = 1000, saidas = 0, saldo = 1000, total_lancamentos = 0\<rparr>
       \<lparr>entradas = 1500, saidas = 300, saldo = 1200, total_lancamentos = 0\<rparr>) = 50
   \<and> var_saidas (comparar \<lparr>entradas = 1000, saidas = 0, saldo = 1000, total_lancamentos = 0\<rparr>
       \<lparr>entradas = 1500, saidas = 300, saldo = 1200, total_lancamentos = 0\<rparr>) = 100
   \<and> var_saldo (comparar \<lparr>entradas = 1000, saidas = 0, saldo = 1000, total_lancamentos = 0\<rparr>
       \<lparr>entradas = 1500, saidas = 300, saldo = 1200, total_lancamentos = 0\<rparr>) = 20
   \<and> var_lanc (comparar \<lparr>entradas = 1000, saidas = 0, saldo = 1000, total_lancamentos = 0\<rparr>
       \<lparr>entradas = 1500, saidas = 300, saldo = 1200, total_lancamentos = 0\<rparr>) = 0
   \<and> (7::rat) \<noteq> 0 \<and> calc_variation 7 7 = 0 \<and> calc_variation 0 0 = 0
   \<and> (0::rat) < 3 \<and> calc_variation 0 3 = 100"
  using comparar_variation
    [of "\<lparr>entradas = 1000, saidas = 0, saldo = 1000, total_lancamentos = 0\<rparr>"
        "\<lparr>entradas = 1500, saidas = 300, saldo = 1200, total_lancamentos = 0\<rparr>" 7 3]
  by simp

section \<open>Reading the table\<close>

lemma read_lancamentos_map: "read_lancamentos L rows = map (as_lancamento L) rows"
  by (simp add: read_lancamentos_def)

lemma tipo_as_lancamento: "tipo (as_lancamento L r) = db_tipo r"
  by (simp add: as_lancamento_def)

lemma valor_as_lancamento: "valor (as_lancamento L r) = fillna 0 (to_numeric L (db_valor r))"
  by (simp add: as_lancamento_def)


section \<open>Monthly tables\<close>

lemma group_keys_Nil_iff:
  "group_keys df = [] \<longleftrightarrow> (\<forall>r\<in>set df. mes r = None \<or> tipo_norm r = None)"
  by (induction df) (auto simp: group_keys_def List.map_filter_def split: option.splits)

lemma sort_Nil_iff: "sort xs = [] \<longleftrightarrow> xs = []"
  using length_sort [of "\<lambda>x. x" xs] by (metis length_0_conv)

lemma index_groupby_Nil_iff: "index (groupby_unstack df) = [] \<longleftrightarrow> group_keys df = []"
  by (simp add: groupby_unstack_def Let_def sort_Nil_iff)

lemma columns_groupby_Nil_iff: "columns (groupby_unstack df) = [] \<longleftrightarrow> group_keys df = []"
  by (simp add: groupby_unstack_def Let_def sort_Nil_iff)

lemma table_empty_groupby: "table_empty (groupby_unstack df) \<longleftrightarrow> group_keys df = []"
  by (simp add: table_empty_def index_groupby_Nil_iff columns_groupby_Nil_iff)

lemma hist_monthly_no_dates:
  assumes "list_all (\<lambda>r. to_datetime L (map data df) (data r) = None) df"
  shows "index (hist_monthly L df) = []"
proof -
  have "dropna_data_dt (assign_data_dt L df) = []"
    using assms
    by (auto simp: dropna_data_dt_def assign_data_dt_def list_all_iff filter_empty_conv)
  then show ?thesis
    by (simp add: hist_monthly_def Let_def index_groupby_Nil_iff assign_tipo_lower_def
        assign_mes_def group_keys_def List.map_filter_def)
qed


section \<open>The least-squares line\<close>









section \<open>Evaluating the forecast on two months\<close>

lemma iso_dates:
  "iso_date (py ''2024-01-05'') = Some \<lparr>days = 19727, micros = 0\<rparr>"
  "iso_date (py ''2024-01-10'') = Some \<lparr>days = 19732, micros = 0\<rparr>"
  "iso_date (py ''2024-01-20'') = Some \<lparr>days = 19742, micros = 0\<rparr>"
  "iso_date (py ''2024-02-10'') = Some \<lparr>days = 19763, micros = 0\<rparr>"
  "iso_date (py ''2024-02-15'') = Some \<lparr>days = 19768, micros = 0\<rparr>"
  "iso_date (py ''sem data'') = None"
  by code_simp+

lemma periods:
  "to_period_M \<lparr>days = 19727, micros = 0\<rparr> = 24288"
  "to_period_M \<lparr>days = 19732, micros = 0\<rparr> = 24288"
  "to_period_M \<lparr>days = 19742, micros = 0\<rparr> = 24288"
  "to_period_M \<lparr>days = 19763, micros = 0\<rparr> = 24289"
  "to_period_M \<lparr>days = 19768, micros = 0\<rparr> = 24289"
  by code_simp+

lemma lower_TIPOS: "lib_lower str_Entrada = str_entrada" "lib_lower str_Saida = str_saida"
  by (simp_all add: lib_lower_def lower_cp_def str_Entrada_def str_entrada_def str_Saida_def str_saida_def)

lemma hist_monthly_df_hist:
  "hist_monthly lib0 df_hist =
   \<lparr>index = [24288, 24289], columns = [(str_entrada, [1000, 1200]), (str_saida, [400, 500])]\<rparr>"
  apply (simp add: hist_monthly_def df_hist_def assign_data_dt_def dropna_data_dt_def
      assign_mes_def assign_tipo_lower_def groupby_unstack_def group_keys_def group_sum_def
      List.map_filter_def iso_dates periods lanc_def lib0_simps lower_TIPOS entrada_neq_saida Let_def)
  apply (simp add: str_entrada_def str_saida_def)
  done

lemma arange_2: "arange (Suc (Suc 0)) = [0, 1]" "arange 2 = [0, 1]"
  by (simp_all add: arange_def numeral_2_eq_2)

lemma polyfit_ent: "polyfit1 [0, 1] [1000, 1200] = (200, 1000)"
  by (simp add: polyfit1_def Let_def)

lemma polyfit_sai: "polyfit1 [0, 1] [400, 500] = (100, 400)"
  by (simp add: polyfit1_def Let_def)

lemma kind_line_df_hist:
  "kind_line (hist_monthly lib0 df_hist) str_entrada = (200, 1000)"
  "kind_line (hist_monthly lib0 df_hist) str_saida = (100, 400)"
  by (simp_all add: hist_monthly_df_hist kind_line_def fit_def arange_2 polyfit_ent polyfit_sai entrada_neq_saida)

lemma upto_1_2: "[1..2::int] = [1, 2]"
  by (simp add: upto.simps)

lemma previsoes_df_hist:
  "page_previsoes lib0 df_hist 2 =
   Inr [\<lparr>mes_proj = 24290, entradas_proj = 1400, saidas_proj = 600, saldo_proj = 800\<rparr>,
        \<lparr>mes_proj = 24291, entradas_proj = 1600, saidas_proj = 700, saldo_proj = 900\<rparr>]"
proof -
  have ne: "df_hist \<noteq> []" by (simp add: df_hist_def)
  have te: "\<not> table_empty (hist_monthly lib0 df_hist)"
    by (simp add: hist_monthly_df_hist table_empty_def)
  have "projetar (hist_monthly lib0 df_hist) 2 =
     [\<lparr>mes_proj = 24290, entradas_proj = 1400, saidas_proj = 600, saldo_proj = 800\<rparr>,
        \<lparr>mes_proj = 24291, entradas_proj = 1600, saidas_proj = 700, saldo_proj = 900\<rparr>]"
    unfolding projetar_def kind_line_df_hist
    by (simp add: hist_monthly_df_hist upto_1_2 Let_def)
  then show ?thesis by (simp add: page_previsoes_def ne te Let_def)
qed

lemma parse_nat_examples:
  "parse_nat (py ''abc'') = None" "parse_nat (py ''400'') = Some 400"
  by (simp_all add: parse_nat_def py_def)


section \<open>The forecast\<close>






text \<open>
  C4. When the history has no monthly bucket, \<open>page_previsoes\<close> gives a warning and no
  list of points: "no data" for an empty frame, "no monthly data" otherwise. This is so
  in particular when no row has a date that parses. Whenever a list of points is
  returned, the history had a bucket.
\<close>

theorem previsoes_insufficient_data:
  "(index (hist_monthly L df) = [] \<longrightarrow>
      page_previsoes L df h = Inl (if df = [] then Sem_dados else Sem_dados_mensais))
   \<and> (list_all (\<lambda>r. to_datetime L (map data df) (data r) = None) df \<longrightarrow>
      index (hist_monthly L df) = [])
   \<and> (page_previsoes L df h = Inr ps \<longrightarrow> index (hist_monthly L df) \<noteq> [])"
  using hist_monthly_no_dates [of L df]
  by (auto simp: page_previsoes_def Let_def table_empty_def hist_monthly_def index_groupby_Nil_iff columns_groupby_Nil_iff)



theorem previsoes_insufficient_data_witness:
  "list_all (\<lambda>r. to_datetime lib0 (map data df_sem_data) (data r) = None) df_sem_data
   \<and> index (hist_monthly lib0 df_sem_data) = []
   \<and> page_previsoes lib0 df_sem_data 6 = Inl Sem_dados_mensais
   \<and> page_previsoes lib0 df_hist 2 =
       Inr [\<lparr>mes_proj = 24290, entradas_proj = 1400, saidas_proj = 600, saldo_proj = 800\<rparr>,
            \<lparr>mes_proj = 24291, entradas_proj = 1600, saidas_proj = 700, saldo_proj = 900\<rparr>]
   \<and> index (hist_monthly lib0 df_hist) \<noteq> []"
proof -
  have h: "list_all (\<lambda>r. to_datetime lib0 (map data df_sem_data) (data r) = None) df_sem_data"
    by (simp add: df_sem_data_def lanc_def lib0_simps iso_dates)
  have ne: "df_sem_data \<noteq> []" by (simp add: df_sem_data_def)
  have i0: "index (hist_monthly lib0 df_sem_data) = []"
    using previsoes_insufficient_data [of lib0 df_sem_data 6] h by blast
  then have w: "page_previsoes lib0 df_sem_data 6 = Inl Sem_dados_mensais"
    using previsoes_insufficient_data [of lib0 df_sem_data 6] ne by simp
  have "index (hist_monthly lib0 df_hist) \<noteq> []"
    using previsoes_insufficient_data [of lib0 df_hist 2] previsoes_df_hist by blast
  then show ?thesis using h i0 w previsoes_df_hist by blast
qed


section \<open>Counting the rows\<close>

text \<open>
  C7. \<open>total_lancamentos\<close> is the number of rows of the frame given to
  \<open>calcular_kpis\<close>, whatever their dates and amounts; through
  \<open>read_lancamentos\<close> it is the number of rows the query returned. A row whose
  \<open>valor\<close> does not parse as a number gets the amount 0: it changes neither
  \<open>entradas\<close> nor \<open>saidas\<close> and raises the count by one.
\<close>

theorem kpis_count_all_rows:
  "total_lancamentos (calcular_kpis L df) = length df
   \<and> total_lancamentos (calcular_kpis L (read_lancamentos L rows)) = length rows
   \<and> (to_numeric L (db_valor r) = None \<longrightarrow>
        valor (as_lancamento L r) = 0
        \<and> entradas (calcular_kpis L (read_lancamentos L (xs @ r # ys))) =
            entradas (calcular_kpis L (read_lancamentos L (xs @ ys)))
        \<and> saidas (calcular_kpis L (read_lancamentos L (xs @ r # ys))) =
            saidas (calcular_kpis L (read_lancamentos L (xs @ ys)))
        \<and> total_lancamentos (calcular_kpis L (read_lancamentos L (xs @ r # ys))) =
            total_lancamentos (calcular_kpis L (read_lancamentos L (xs @ ys))) + 1)"
  by (simp add: total_calcular_kpis read_lancamentos_map entradas_calcular_kpis
      saidas_calcular_kpis valor_as_lancamento fillna_def)


theorem kpis_count_all_rows_witness:
  "total_lancamentos (calcular_kpis lib0 df4) = 4
   \<and> total_lancamentos (calcular_kpis lib0 (read_lancamentos lib0
         [db_lanc 1 (py ''2024-01-05'') str_Entrada (SqlNum 1000),
          db_lanc 2 (py ''2024-01-20'') str_Saida (SqlText (py ''400''))])) = 2
   \<and> to_numeric lib0 (db_valor (db_lanc 3 (py ''data'') str_Entrada (SqlText (py ''abc'')))) = None
   \<and> valor (as_lancamento lib0 (db_lanc 3 (py ''data'') str_Entrada (SqlText (py ''abc'')))) = 0
   \<and> entradas (calcular_kpis lib0 (read_lancamentos lib0
         ([db_lanc 1 (py ''2024-01-05'') str_Entrada (SqlNum 1000)]
          @ db_lanc 3 (py ''data'') str_Entrada (SqlText (py ''abc''))
          # [db_lanc 2 (py ''2024-01-20'') str_Saida (SqlText (py ''400''))]))) = 1000
   \<and> saidas (calcular_kpis lib0 (read_lancamentos lib0
         ([db_lanc 1 (py ''2024-01-05'') str_Entrada (SqlNum 1000)]
          @ db_lanc 3 (py ''data'') str_Entrada (SqlText (py ''abc''))
          # [db_lanc 2 (py ''2024-01-20'') str_Saida (SqlText (py ''400''))]))) = 400
   \<and> total_lancamentos (calcular_kpis lib0 (read_lancamentos lib0
         ([db_lanc 1 (py ''2024-01-05'') str_Entrada (SqlNum 1000)]
          @ db_lanc 3 (py ''data'') str_Entrada (SqlText (py ''abc''))
          # [db_lanc 2 (py ''2024-01-20'') str_Saida (SqlText (py ''400''))]))) = 3"
proof -
  let ?r = "db_lanc 3 (py ''data'') str_Entrada (SqlText (py ''abc''))"
  let ?xs = "[db_lanc 1 (py ''2024-01-05'') str_Entrada (SqlNum 1000)]"
  let ?ys = "[db_lanc 2 (py ''2024-01-20'') str_Saida (SqlText (py ''400''))]"
  have h: "to_numeric lib0 (db_valor ?r) = None"
    by (simp add: to_numeric_def db_lanc_def lib0_simps parse_nat_examples)
  have e: "entradas (calcular_kpis lib0 (read_lancamentos lib0 (?xs @ ?ys))) = 1000"
    by (simp add: entradas_calcular_kpis read_lancamentos_map as_lancamento_def db_lanc_def
        to_numeric_def fillna_def norm_simps parse_nat_examples)
  have s: "saidas (calcular_kpis lib0 (read_lancamentos lib0 (?xs @ ?ys))) = 400"
    by (simp add: saidas_calcular_kpis read_lancamentos_map as_lancamento_def db_lanc_def
        to_numeric_def fillna_def norm_simps parse_nat_examples)
  have l4: "length df4 = 4" by (simp add: df4_def)
  note t = kpis_count_all_rows [of lib0 df4 "?xs @ ?ys" ?r ?xs ?ys]
  have c1: "total_lancamentos (calcular_kpis lib0 df4) = 4" using t l4 by simp
  have c2: "total_lancamentos (calcular_kpis lib0 (read_lancamentos lib0 (?xs @ ?ys))) = 2"
    using t by simp
  have c3: "valor (as_lancamento lib0 ?r) = 0" using t h by blast
  have c4: "entradas (calcular_kpis lib0 (read_lancamentos lib0 (?xs @ ?r # ?ys))) = 1000"
    using t h e by simp
  have c5: "saidas (calcular_kpis lib0 (read_lancamentos lib0 (?xs @ ?r # ?ys))) = 400"
    using t h s by simp
  have c6: "total_lancamentos (calcular_kpis lib0 (read_lancamentos lib0 (?xs @ ?r # ?ys))) = 3"
    using t h c2 by simp
  show ?thesis using c1 c2 h c3 c4 c5 c6 by simp
qed

section \<open>Buckets and totals\<close>



lemma index_groupby_set: "set (index (groupby_unstack f)) = fst ` set (group_keys f)"
  by (simp add: groupby_unstack_def Let_def)



lemmas window_eval = trend_window_def assign_data_dt_def dropna_data_dt_def data_dt_ge_def
  dt_ge_def minus_days_def now0_def lib0_simps iso_dates Let_def lanc_def

lemmas monthly_eval = trend_monthly_def assign_mes_def assign_tipo_norm_def groupby_unstack_def
  group_keys_def group_sum_def List.map_filter_def periods lanc_def norm_simps Let_def

lemma win_df4:
  "trend_window lib0 now0 df4 6 =
   [lanc 1 (py ''2024-01-05'') str_Entrada 1000
      \<lparr>data_dt := Some (Some \<lparr>days = 19727, micros = 0\<rparr>)\<rparr>,
    lanc 2 (py ''2024-01-20'') str_Saida 400
      \<lparr>data_dt := Some (Some \<lparr>days = 19742, micros = 0\<rparr>)\<rparr>,
    lanc 3 (py ''2024-02-10'') (py '' ENTRADA '') 1100
      \<lparr>data_dt := Some (Some \<lparr>days = 19763, micros = 0\<rparr>)\<rparr>,
    lanc 4 (py ''2024-02-15'') str_Saida 500
      \<lparr>data_dt := Some (Some \<lparr>days = 19768, micros = 0\<rparr>)\<rparr>]"
  by (simp add: df4_def window_eval)

lemma mon_df4:
  "trend_monthly lib0 (trend_window lib0 now0 df4 6) =
   \<lparr>index = [24288, 24289], columns = [(str_entrada, [1000, 1100]), (str_saida, [400, 500])]\<rparr>"
  apply (simp add: win_df4 monthly_eval)
  apply (simp add: str_entrada_def str_saida_def)
  done

section \<open>Trends that are not finite\<close>

lemma win_df_inf:
  "trend_window lib0 now0 df_inf 6 =
   [lanc 1 (py ''2024-01-10'') str_Saida 50
      \<lparr>data_dt := Some (Some \<lparr>days = 19732, micros = 0\<rparr>)\<rparr>,
    lanc 2 (py ''2024-02-10'') str_Entrada 100
      \<lparr>data_dt := Some (Some \<lparr>days = 19763, micros = 0\<rparr>)\<rparr>]"
  by (simp add: df_inf_def window_eval)

lemma mon_df_inf:
  "trend_monthly lib0 (trend_window lib0 now0 df_inf 6) =
   \<lparr>index = [24288, 24289], columns = [(str_entrada, [0, 100]), (str_saida, [50, 0])]\<rparr>"
  apply (simp add: win_df_inf monthly_eval)
  apply (simp add: str_entrada_def str_saida_def)
  done

lemma win_df_zeros:
  "trend_window lib0 now0 df_zeros 6 =
   [lanc 1 (py ''2024-01-10'') str_Entrada 0
      \<lparr>data_dt := Some (Some \<lparr>days = 19732, micros = 0\<rparr>)\<rparr>,
    lanc 2 (py ''2024-02-10'') str_Entrada 0
      \<lparr>data_dt := Some (Some \<lparr>days = 19763, micros = 0\<rparr>)\<rparr>]"
  by (simp add: df_zeros_def window_eval)

lemma mon_df_zeros:
  "trend_monthly lib0 (trend_window lib0 now0 df_zeros 6) =
   \<lparr>index = [24288, 24289], columns = [(str_entrada, [0, 0])]\<rparr>"
  by (simp add: win_df_zeros monthly_eval)

lemma win_df_outro:
  "trend_window lib0 now0 df_outro 6 =
   [lanc 1 (py ''2024-01-10'') (py ''Outro'') 50
      \<lparr>data_dt := Some (Some \<lparr>days = 19732, micros = 0\<rparr>)\<rparr>]"
  by (simp add: df_outro_def window_eval)

lemma mon_df_outro:
  "trend_monthly lib0 (trend_window lib0 now0 df_outro 6) =
   \<lparr>index = [24288], columns = [(py ''outro'', [50])]\<rparr>"
  by (simp add: win_df_outro monthly_eval)

lemma pct_change_2: "pct_change [a, b] = [NaN, fl_add (fl_div b a) (Fin (- 1))]"
  by (simp add: pct_change_def)

lemma series_mean_2: "x \<noteq> NaN \<Longrightarrow> series_mean [NaN, x] = fl_div_count x 1"
  by (cases x) (simp_all add: series_mean_def Let_def fl_div_count_def)

lemma series_mean_2_nan: "series_mean [NaN, NaN] = NaN"
  by (simp add: series_mean_def Let_def)

lemmas trend_eval = series_trend_def pct_change_2 fl_div_def series_mean_2 series_mean_2_nan
  fl_div_count_def fl_scale_def

lemma series_trend_examples:
  "series_trend [0, 100] = PInf"
  "series_trend [50, 0] = Fin (- 100)"
  "series_trend [- 50, 100] = Fin (- 300)"
  "series_trend [0, 0] = NaN"
  by (simp_all add: trend_eval)

lemmas trends_unfold = calcular_trends_def trends_of_monthly_def Let_def column_trend_def
  table_get_def
  entrada_neq_saida outro_neq outro_neq [symmetric]


text \<open>
  C1. \<open>calcular_trends\<close> does not always return finite values. With an outflow in
  January and an inflow in February the inflow series is 0, 100, the step
  \<open>100 / 0 - 1\<close> is an infinity, the mean keeps it, and \<open>trend_entradas\<close> is
  infinite. With two inflows of amount 0 the only step is \<open>0 / 0 - 1\<close>, NaN, the mean
  of nothing is NaN, and so are \<open>trend_entradas\<close> and \<open>trend_saldo\<close>. With rows of
  another kind only, \<open>len\<close> of the integer 0 raises TypeError.
\<close>

theorem trends_not_finite:
  "calcular_trends lib0 now0 df_inf 6 =
     Inr \<lparr>trend_entradas = PInf, trend_saidas = Fin (- 100), trend_saldo = Fin (- 300)\<rparr>
   \<and> calcular_trends lib0 now0 df_zeros 6 =
     Inr \<lparr>trend_entradas = NaN, trend_saidas = Fin 0, trend_saldo = NaN\<rparr>
   \<and> calcular_trends lib0 now0 df_outro 6 = Inl TypeError"
proof -
  have a: "calcular_trends lib0 now0 df_inf 6 =
     Inr \<lparr>trend_entradas = PInf, trend_saidas = Fin (- 100), trend_saldo = Fin (- 300)\<rparr>"
  proof -
    have ne: "df_inf \<noteq> []" by (simp add: df_inf_def)
    have ne2: "trend_window lib0 now0 df_inf 6 \<noteq> []" by (simp add: win_df_inf)
    show ?thesis by (simp add: trends_unfold mon_df_inf ne ne2 series_trend_examples)
  qed
  have b: "calcular_trends lib0 now0 df_zeros 6 =
     Inr \<lparr>trend_entradas = NaN, trend_saidas = Fin 0, trend_saldo = NaN\<rparr>"
  proof -
    have ne: "df_zeros \<noteq> []" by (simp add: df_zeros_def)
    have ne2: "trend_window lib0 now0 df_zeros 6 \<noteq> []" by (simp add: win_df_zeros)
    show ?thesis by (simp add: trends_unfold mon_df_zeros ne ne2 series_trend_examples)
  qed
  have c: "calcular_trends lib0 now0 df_outro 6 = Inl TypeError"
  proof -
    have ne: "df_outro \<noteq> []" by (simp add: df_outro_def)
    have ne2: "trend_window lib0 now0 df_outro 6 \<noteq> []" by (simp add: win_df_outro)
    show ?thesis by (simp add: trends_unfold mon_df_outro ne ne2)
  qed
  show ?thesis using a b c by blast
qed

section \<open>The trend of a series without a zero\<close>








section \<open>The structure of calcular\_trends\<close>




































section \<open>The caller's frame\<close>

lemma new_object_get: "new_object s f = (c, s1) \<Longrightarrow> get_object s1 c = f"
  by (auto simp: new_object_def get_object_def)

lemma new_object_ref: "new_object s f = (c, s1) \<Longrightarrow> c = next_ref s"
  by (auto simp: new_object_def)

lemma new_object_next: "new_object s f = (c, s1) \<Longrightarrow> next_ref s1 = Suc (next_ref s)"
  by (auto simp: new_object_def)

lemma new_object_objs:
  "new_object s f = (c, s1) \<Longrightarrow> a < next_ref s \<Longrightarrow> objs s1 a = objs s a"
  by (auto simp: new_object_def)

lemma get_set_object: "get_object (set_object s a f) a = f"
  by (simp add: set_object_def get_object_def)

lemma objs_set_object: "a \<noteq> b \<Longrightarrow> objs (set_object s a f) b = objs s b"
  by (simp add: set_object_def)

lemma next_ref_set_object: "next_ref (set_object s a f) = next_ref s"
  by (simp add: set_object_def)

lemma calcular_kpis_st_result:
  assumes "objs s df = Some f"
  shows "\<exists>s'. calcular_kpis_st L s df = Some (calcular_kpis L f, s')
           \<and> (\<forall>a<next_ref s. objs s' a = objs s a)"
proof (cases "f = []")
  case True
  then show ?thesis using assms by (simp add: calcular_kpis_st_def calcular_kpis_def)
next
  case False
  obtain c s1 where n: "new_object s f = (c, s1)" by (cases "new_object s f")
  define s2 where "s2 = set_object s1 c (assign_tipo_norm L f)"
  have r: "calcular_kpis_st L s df = Some (calcular_kpis L f, s2)"
    using assms False
    by (simp add: calcular_kpis_st_def n new_object_get [OF n] s2_def get_set_object
        calcular_kpis_def Let_def)
  have "\<forall>a<next_ref s. objs s2 a = objs s a"
    using new_object_objs [OF n] new_object_ref [OF n] by (simp add: s2_def objs_set_object)
  then show ?thesis using r by blast
qed

lemma calcular_trends_st_result:
  assumes "objs s df = Some f"
  shows "\<exists>s'. calcular_trends_st L now s df periodo = Some (calcular_trends L now f periodo, s')
           \<and> (\<forall>a<next_ref s. objs s' a = objs s a)"
proof (cases "f = []")
  case True
  then show ?thesis using assms by (simp add: calcular_trends_st_def calcular_trends_def)
next
  case False
  obtain c s1 where n1: "new_object s f = (c, s1)" by (cases "new_object s f")
  define s2 where "s2 = set_object s1 c (assign_data_dt L f)"
  obtain d s3 where n3: "new_object s2 (dropna_data_dt (assign_data_dt L f)) = (d, s3)"
    by (cases "new_object s2 (dropna_data_dt (assign_data_dt L f))")
  define W where "W = trend_window L now f periodo"
  have Wd: "W = filter (data_dt_ge (minus_days now (periodo * 30)))
                  (dropna_data_dt (assign_data_dt L f))"
    by (simp add: W_def trend_window_def Let_def)
  obtain e s4 where n4: "new_object s3 W = (e, s4)" by (cases "new_object s3 W")
  have c: "c = next_ref s" by (rule new_object_ref [OF n1])
  have n2: "next_ref s2 = Suc (next_ref s)"
    using new_object_next [OF n1] by (simp add: s2_def next_ref_set_object)
  have d: "d = Suc (next_ref s)" using new_object_ref [OF n3] n2 by simp
  have n3': "next_ref s3 = Suc (Suc (next_ref s))" using new_object_next [OF n3] n2 by simp
  have e: "e = Suc (Suc (next_ref s))" using new_object_ref [OF n4] n3' by simp
  have keep4: "\<forall>a<next_ref s. objs s4 a = objs s a"
  proof (intro allI impI)
    fix a assume a: "a < next_ref s"
    have "objs s4 a = objs s3 a" using new_object_objs [OF n4] a n3' by simp
    also have "\<dots> = objs s2 a" using new_object_objs [OF n3] a n2 by simp
    also have "\<dots> = objs s1 a" using a c by (simp add: s2_def objs_set_object)
    also have "\<dots> = objs s a" using new_object_objs [OF n1] a by simp
    finally show "objs s4 a = objs s a" .
  qed
  define s5 where "s5 = set_object s4 e (assign_mes W)"
  define s6 where "s6 = set_object s5 e (assign_tipo_norm L (assign_mes W))"
  have keep6: "\<forall>a<next_ref s. objs s6 a = objs s a"
    using keep4 c d e by (simp add: s6_def s5_def objs_set_object)
  have unfold: "calcular_trends_st L now s df periodo =
      (if W = [] then Some (Inr zero_trends, s4)
       else Some (trends_of_monthly (groupby_unstack (assign_tipo_norm L (assign_mes W))), s6))"
  proof -
    have a1: "get_object s1 c = f" by (rule new_object_get [OF n1])
    have a2: "get_object s2 c = assign_data_dt L f" by (simp add: s2_def get_set_object)
    have a3: "get_object s3 d = dropna_data_dt (assign_data_dt L f)"
      by (rule new_object_get [OF n3])
    have a4: "get_object s4 e = W" by (rule new_object_get [OF n4])
    have a5: "get_object s5 e = assign_mes W" by (simp add: s5_def get_set_object)
    have a6: "get_object s6 e = assign_tipo_norm L (assign_mes W)"
      by (simp add: s6_def get_set_object)
    have "calcular_trends_st L now s df periodo =
        (if get_object s4 e = [] then Some (Inr zero_trends, s4)
         else Some (trends_of_monthly (groupby_unstack (get_object s6 e)), s6))"
      unfolding calcular_trends_st_def Let_def assms option.case n1 prod.case a1
        s2_def [symmetric] a2 n3 a3 Wd [symmetric] n4 a4 s5_def [symmetric] a5
        s6_def [symmetric]
      using False by simp
    then show ?thesis by (simp add: a4 a6)
  qed
  show ?thesis
  proof (cases "W = []")
    case True
    then have "calcular_trends_st L now s df periodo = Some (calcular_trends L now f periodo, s4)"
      using unfold False by (simp add: calcular_trends_def W_def Let_def)
    then show ?thesis using keep4 by blast
  next
    case F: False
    then have "calcular_trends_st L now s df periodo = Some (calcular_trends L now f periodo, s6)"
      using unfold False by (simp add: calcular_trends_def W_def Let_def trend_monthly_def)
    then show ?thesis using keep6 by blast
  qed
qed


lemma calcular_kpis_df4:
  "calcular_kpis lib0 df4 = \<lparr>entradas = 2100, saidas = 900, saldo = 1200, total_lancamentos = 4\<rparr>"
proof -
  have "saldo (calcular_kpis lib0 df4) = 1200"
    by (simp add: saldo_calcular_kpis kpis_df4)
  moreover have "total_lancamentos (calcular_kpis lib0 df4) = 4"
    by (simp add: total_calcular_kpis df4_def)
  ultimately show ?thesis
    using kpis_df4 by (cases "calcular_kpis lib0 df4") simp
qed

lemma series_trend_df4:
  "series_trend [1000, 1100] = Fin 10" "series_trend [400, 500] = Fin 25"
  "series_trend [600, 600] = Fin 0"
  by (simp_all add: trend_eval)

lemma calcular_trends_df4:
  "calcular_trends lib0 now0 df4 6 =
     Inr \<lparr>trend_entradas = Fin 10, trend_saidas = Fin 25, trend_saldo = Fin 0\<rparr>"
proof -
  have ne: "df4 \<noteq> []" by (simp add: df4_def)
  have ne2: "trend_window lib0 now0 df4 6 \<noteq> []" by (simp add: win_df4)
  show ?thesis by (simp add: trends_unfold mon_df4 ne ne2 series_trend_df4)
qed


text \<open>
  C9. \<open>calcular_kpis\<close> and \<open>calcular_trends\<close>, run on a store that holds the caller's
  frame, leave that frame and every other object that existed before the call as they
  were: all their writes go to objects they made themselves. What they return is the
  value of the pure function on the frame's rows (and, for the trends, the clock), so
  nothing is kept from one call to the next: a second call on the store the first one
  left returns the same result.
\<close>

theorem analytics_leave_input_unchanged:
  assumes "objs s df = Some f" and "df < next_ref s"
  shows "(\<exists>s'. calcular_kpis_st L s df = Some (calcular_kpis L f, s')
            \<and> objs s' df = Some f
            \<and> (\<forall>a<next_ref s. objs s' a = objs s a)
            \<and> (\<exists>s''. calcular_kpis_st L s' df = Some (calcular_kpis L f, s'')))
       \<and> (\<exists>s'. calcular_trends_st L now s df periodo = Some (calcular_trends L now f periodo, s')
            \<and> objs s' df = Some f
            \<and> (\<forall>a<next_ref s. objs s' a = objs s a)
            \<and> (\<exists>s''. calcular_trends_st L now s' df periodo =
                        Some (calcular_trends L now f periodo, s'')))"
proof -
  obtain s1 where k: "calcular_kpis_st L s df = Some (calcular_kpis L f, s1)"
      and k1: "\<forall>a<next_ref s. objs s1 a = objs s a"
    using calcular_kpis_st_result [OF assms(1)] by blast
  have k2: "objs s1 df = Some f" using k1 assms by simp
  obtain s2 where k3: "calcular_kpis_st L s1 df = Some (calcular_kpis L f, s2)"
    using calcular_kpis_st_result [OF k2] by blast
  obtain t1 where t: "calcular_trends_st L now s df periodo
        = Some (calcular_trends L now f periodo, t1)"
      and t1: "\<forall>a<next_ref s. objs t1 a = objs s a"
    using calcular_trends_st_result [OF assms(1)] by blast
  have t2: "objs t1 df = Some f" using t1 assms by simp
  obtain t3 where t3: "calcular_trends_st L now t1 df periodo
        = Some (calcular_trends L now f periodo, t3)"
    using calcular_trends_st_result [OF t2] by blast
  show ?thesis using k k1 k2 k3 t t1 t2 t3 by blast
qed


theorem analytics_leave_input_unchanged_witness:
  "objs store0 0 = Some df4 \<and> 0 < next_ref store0
   \<and> (\<exists>s'. calcular_kpis_st lib0 store0 0 =
              Some (\<lparr>entradas = 2100, saidas = 900, saldo = 1200, total_lancamentos = 4\<rparr>, s')
            \<and> objs s' 0 = Some df4)
   \<and> (\<exists>s'. calcular_trends_st lib0 now0 store0 0 6 =
              Some (Inr \<lparr>trend_entradas = Fin 10, trend_saidas = Fin 25, trend_saldo = Fin 0\<rparr>, s')
            \<and> objs s' 0 = Some df4)"
proof -
  have o: "objs store0 0 = Some df4" by (simp add: store0_def)
  have n: "0 < next_ref store0" by (simp add: store0_def)
  note t = analytics_leave_input_unchanged [OF o n, of lib0 now0 6]
  have a: "\<exists>s'. calcular_kpis_st lib0 store0 0 = Some (calcular_kpis lib0 df4, s')
            \<and> objs s' 0 = Some df4"
    using t by blast
  have b: "\<exists>s'. calcular_trends_st lib0 now0 store0 0 6 =
              Some (calcular_trends lib0 now0 df4 6, s') \<and> objs s' 0 = Some df4"
    using t by blast
  show ?thesis using o n a b by (simp only: calcular_kpis_df4 calcular_trends_df4)
qed

section \<open>The forecast, bucket by bucket\<close>

























end
